theory Spec2Isabelle
  imports Main
begin

section \<open>Strings and numbers of the host language\<close>

text \<open>
  A string is a list of code units. The model covers the code units below 256 (ASCII and
  the Latin-1 supplement), which is where token addresses live; on that range
  \<open>String.prototype.toLowerCase\<close> maps \<open>A..Z\<close> and \<open>U+00C0..U+00DE\<close> (without the
  multiplication sign \<open>U+00D7\<close>) to the code unit 32 places higher and leaves every other
  code unit alone.
\<close>

definition isUpperCase :: "char \<Rightarrow> bool" where
  "isUpperCase c =
     (let n = (of_char c :: nat)
      in (65 \<le> n \<and> n \<le> 90) \<or> (192 \<le> n \<and> n \<le> 222 \<and> n \<noteq> 215))"

definition charToLowerCase :: "char \<Rightarrow> char" where
  "charToLowerCase c = (if isUpperCase c then char_of (of_char c + (32::nat)) else c)"

definition toLowerCase :: "string \<Rightarrow> string" where
  "toLowerCase s = map charToLowerCase s"

text \<open>
  Two code units are the same letter when they are equal or one is the lower-case form of
  the other, upper-case, one; two strings are equal up to letter casing when they have the
  same length and agree position by position in that sense.
\<close>

definition sameLetter :: "char \<Rightarrow> char \<Rightarrow> bool" where
  "sameLetter c d =
     (c = d \<or> (isUpperCase c \<and> d = charToLowerCase c) \<or> (isUpperCase d \<and> c = charToLowerCase d))"

definition equalUpToCasing :: "string \<Rightarrow> string \<Rightarrow> bool" where
  "equalUpToCasing s t = list_all2 sameLetter s t"

text \<open>
  A number that holds an integer below \<open>10^21\<close> in absolute value is rendered by a
  template literal as its decimal digits, with a leading minus sign when negative.
\<close>

fun decimalDigits :: "nat \<Rightarrow> string" where
  "decimalDigits n =
     (if n < 10 then [char_of (48 + n)]
      else decimalDigits (n div 10) @ [char_of (48 + n mod 10)])"

definition numberToString :: "int \<Rightarrow> string" where
  "numberToString n =
     (if n < 0 then CHR ''-'' # decimalDigits (nat (- n)) else decimalDigits (nat n))"

datatype error = Error string

section \<open>PortionFetcher\<close>

subsection \<open>Data (PortionFetcher.ts, lines 11 to 51)\<close>

datatype PortionType = Flat | Regressive

record Portion =
  bips :: int
  recipient :: string
  type :: PortionType

record GetPortionResponse =
  hasPortion :: bool
  portion :: "Portion option"

definition GET_NO_PORTION_RESPONSE :: GetPortionResponse where
  "GET_NO_PORTION_RESPONSE = \<lparr>hasPortion = False, portion = None\<rparr>"

definition BX_PORTION_ADDRESSES :: "string list" where
  "BX_PORTION_ADDRESSES =
     [''eth'',
      ''0x0000000000000000000000000000000000000000'',
      ''0xa0b86991c6218b36c1d19d4a2e9eb0ce3606eb48'',
      ''0xc02aaa39b223fe8d0a0e5c4f27ead9083c756cc2'',
      ''0xdac17f958d2ee523a2206206994597c13d831ec7'',
      ''0x6b175474e89094c44da98b954eedeac495271d0f'',
      ''0x2260fac5e5542a773aa44fbcfedf7c193bc2c599'',
      ''0x1a7e4e63778b4f12a199c062f3efdd288afcbce8'',
      ''0x056fd409e1d7a124bd7017459dfea2f387b6d5cd'',
      ''0x5f98805a4e8be255a32880fdec7f6728c6568ba0'',
      ''0x1abaea1f7c830bd89acc67ec4af516284b1bc33c'',
      ''0x70e8de73ce538da2beed35d14187f6959a8eca96'']"

definition BX_PORTION_RESPONSE :: GetPortionResponse where
  "BX_PORTION_RESPONSE =
     \<lparr>hasPortion = True,
      portion = Some \<lparr>bips = 5,
                      recipient = ''0x27213E28D7fDA5c57Fe9e5dD923818DBCcf71c47'',
                      type = Flat\<rparr>\<rparr>"

subsection \<open>The collaborators\<close>

text \<open>
  What a call does to its surroundings is recorded as a list of events, appended in the
  order of execution.
\<close>

datatype event =
    PutMetric string
  | LogError string
  | FlagRead bool
  | CacheGet string
  | CacheSet string GetPortionResponse int
  | HttpGet string int string int string

text \<open>
  The surroundings of a fetcher. The feature flag is read from the process environment and
  may change at any moment: \<open>flagAt w n\<close> is what the \<open>n\<close>-th read returns, and
  \<open>flagReads w\<close> counts the reads made so far. The cache store holds, for a key, the
  stored value and the time to live it was stored with; \<open>cacheGetError\<close> and
  \<open>cacheSetError\<close> say for which keys the store's operation throws, and what.
  \<open>httpGet w url args\<close> is the outcome of the request to the portion service: its body,
  or the error of a failed request (network error, status outside 2xx, malformed body).
\<close>

record world =
  flagAt :: "nat \<Rightarrow> bool"
  flagReads :: nat
  cacheData :: "string \<rightharpoonup> (GetPortionResponse \<times> int)"
  cacheGetError :: "string \<Rightarrow> error option"
  cacheSetError :: "string \<Rightarrow> error option"
  httpGet :: "string \<Rightarrow> int \<Rightarrow> string \<Rightarrow> int \<Rightarrow> string \<Rightarrow> error + GetPortionResponse"
  trace :: "event list"

definition emit :: "event \<Rightarrow> world \<Rightarrow> world" where
  "emit e w = w\<lparr>trace := trace w @ [e]\<rparr>"

text \<open>
  Modelled from the spec: the metrics sink (\<open>metrics.putMetric\<close> of \<open>util/metrics\<close>), a
  fire-and-forget emission of a named counter or timer that never fails the caller.
\<close>

definition putMetric :: "string \<Rightarrow> world \<Rightarrow> world" where
  "putMetric name w = emit (PutMetric name) w"

text \<open>
  Modelled from the spec: the structured logger (\<open>log.error\<close> of \<open>util/log\<close>).
\<close>

definition logError :: "string \<Rightarrow> world \<Rightarrow> world" where
  "logError msg w = emit (LogError msg) w"

text \<open>
  Modelled from the spec: the feature flag source (\<open>uraEnablePortion\<close> of \<open>constants\<close>), a
  boolean read that is evaluated again at every call.
\<close>

definition uraEnablePortion :: "world \<Rightarrow> bool \<times> world" where
  "uraEnablePortion w =
     (let b = flagAt w (flagReads w)
      in (b, emit (FlagRead b) (w\<lparr>flagReads := Suc (flagReads w)\<rparr>)))"

text \<open>
  Modelled from the spec: the cache store, \<open>get(key) -> value | absent\<close> and
  \<open>set(key, value, ttlSeconds)\<close>. An entry that has expired is one the surroundings have
  removed from \<open>cacheData\<close>. An operation that throws leaves the store as it was.
\<close>

definition cacheGet :: "string \<Rightarrow> world \<Rightarrow> (error + GetPortionResponse option) \<times> world" where
  "cacheGet key w =
     (case cacheGetError w key of
        Some e \<Rightarrow> (Inl e, emit (CacheGet key) w)
      | None \<Rightarrow> (Inr (map_option fst (cacheData w key)), emit (CacheGet key) w))"

definition cacheSet ::
  "string \<Rightarrow> GetPortionResponse \<Rightarrow> int \<Rightarrow> world \<Rightarrow> (error + unit) \<times> world" where
  "cacheSet key val ttl w =
     (case cacheSetError w key of
        Some e \<Rightarrow> (Inl e, emit (CacheSet key val ttl) w)
      | None \<Rightarrow>
          (Inr (), emit (CacheSet key val ttl) (w\<lparr>cacheData := (cacheData w)(key \<mapsto> (val, ttl))\<rparr>)))"

text \<open>
  Modelled from the spec: the remote portion client (\<open>portionServiceInstance.get\<close>, an
  axios instance), an HTTP GET with the four query parameters.
\<close>

definition portionServiceGet ::
  "string \<Rightarrow> int \<Rightarrow> string \<Rightarrow> int \<Rightarrow> string \<Rightarrow> world \<Rightarrow> (error + GetPortionResponse) \<times> world" where
  "portionServiceGet url ci ai co ao w =
     (httpGet w url ci ai co ao, emit (HttpGet url ci ai co ao) w)"

subsection \<open>The fetcher (PortionFetcher.ts, lines 53 to 149)\<close>

text \<open>
  The fields of a fetcher object. Its \<open>portionCache\<close> is a reference to the cache store, whose
  content is part of the surroundings.
\<close>

record PortionFetcher =
  portionApiUrl :: string
  positiveCacheEntryTtl :: int
  negativeCacheEntryTtl :: int

definition PORTION_CACHE_KEY :: "int \<Rightarrow> string \<Rightarrow> int \<Rightarrow> string \<Rightarrow> string" where
  "PORTION_CACHE_KEY tokenInChainId tokenInAddress tokenOutChainId tokenOutAddress =
     ''PortionFetcher-'' @ numberToString tokenInChainId @ ''-'' @ toLowerCase tokenInAddress
       @ ''-'' @ numberToString tokenOutChainId @ ''-'' @ toLowerCase tokenOutAddress"

definition getPortionFullPath :: "PortionFetcher \<Rightarrow> string" where
  "getPortionFullPath this = portionApiUrl this @ ''/portion''"

text \<open>
  Lines 104 to 106: \<open>!forcePortion && this.portionCache.get(key)\<close>. With \<open>forcePortion\<close> on,
  the store is not consulted and the value is falsy.
\<close>

definition portionFromCache ::
  "bool \<Rightarrow> int \<Rightarrow> string \<Rightarrow> int \<Rightarrow> string \<Rightarrow> world \<Rightarrow> (error + GetPortionResponse option) \<times> world"
  where
  "portionFromCache forcePortion ci ai co ao w =
     (if forcePortion then (Inr None, w) else cacheGet (PORTION_CACHE_KEY ci ai co ao) w)"

text \<open>The body of the \<open>try\<close> block, lines 114 to 139.\<close>

definition tryFetch ::
  "bool \<Rightarrow> PortionFetcher \<Rightarrow> int \<Rightarrow> string \<Rightarrow> int \<Rightarrow> string \<Rightarrow> world
     \<Rightarrow> (error + GetPortionResponse) \<times> world" where
  "tryFetch forcePortion this ci ai co ao w =
     (case portionServiceGet (getPortionFullPath this) ci ai co ao w of
        (Inl e, w1) \<Rightarrow> (Inl e, w1)
      | (Inr dat, w1) \<Rightarrow>
          (let w2 = putMetric ''PortionFetcherCacheMiss''
                      (putMetric ''PortionFetcherSuccess'' (putMetric ''Latency-GetPortion'' w1))
           in if \<not> forcePortion then
                (case cacheSet (PORTION_CACHE_KEY ci ai co ao) dat
                        (if portion dat \<noteq> None then positiveCacheEntryTtl this
                         else negativeCacheEntryTtl this) w2 of
                   (Inl e, w3) \<Rightarrow> (Inl e, w3)
                 | (Inr u, w3) \<Rightarrow> (Inr dat, w3))
              else (Inr dat, w2)))"

text \<open>Lines 102 to 147: the cache read, then the \<open>try\<close> block with its \<open>catch\<close>.\<close>

definition cacheAside ::
  "bool \<Rightarrow> PortionFetcher \<Rightarrow> int \<Rightarrow> string \<Rightarrow> int \<Rightarrow> string \<Rightarrow> world
     \<Rightarrow> (error + GetPortionResponse) \<times> world" where
  "cacheAside forcePortion this ci ai co ao w =
     (case portionFromCache forcePortion ci ai co ao w of
        (Inl e, w1) \<Rightarrow> (Inl e, w1)
      | (Inr (Some hit), w1) \<Rightarrow> (Inr hit, putMetric ''PortionFetcherCacheHit'' w1)
      | (Inr None, w1) \<Rightarrow>
          (case tryFetch forcePortion this ci ai co ao w1 of
             (Inr dat, w2) \<Rightarrow> (Inr dat, w2)
           | (Inl e, w2) \<Rightarrow>
               (Inr GET_NO_PORTION_RESPONSE,
                putMetric ''PortionFetcherCacheMiss''
                  (putMetric ''PortionFetcherErr'' (logError ''PortionFetcherErr'' w2)))))"

text \<open>
  \<open>getPortion\<close>, lines 78 to 148. \<open>forcePortion\<close> is a constant of \<open>util/portion\<close> and is
  taken as a parameter. The result is \<open>Inl\<close> when the call throws (the promise rejects).
\<close>

definition getPortion ::
  "bool \<Rightarrow> PortionFetcher \<Rightarrow> int \<Rightarrow> string \<Rightarrow> int \<Rightarrow> string \<Rightarrow> world
     \<Rightarrow> (error + GetPortionResponse) \<times> world" where
  "getPortion forcePortion this tokenInChainId tokenInAddress tokenOutChainId tokenOutAddress w =
     (case uraEnablePortion (putMetric ''PortionFetcherRequest'' w) of
        (True, w1) \<Rightarrow>
          (if toLowerCase tokenInAddress \<in> set BX_PORTION_ADDRESSES
              \<and> toLowerCase tokenOutAddress \<in> set BX_PORTION_ADDRESSES
           then (Inr BX_PORTION_RESPONSE, w1)
           else (Inr GET_NO_PORTION_RESPONSE, w1))
      | (False, w1) \<Rightarrow>
          (case uraEnablePortion w1 of
             (False, w2) \<Rightarrow>
               (Inr GET_NO_PORTION_RESPONSE, putMetric ''PortionFetcherFlagDisabled'' w2)
           | (True, w2) \<Rightarrow>
               cacheAside forcePortion this tokenInChainId tokenInAddress
                 tokenOutChainId tokenOutAddress w2))"

text \<open>The events a call added, and those that touch the cache store or the remote client.\<close>

definition newEvents :: "world \<Rightarrow> world \<Rightarrow> event list" where
  "newEvents w w' = drop (length (trace w)) (trace w')"

fun touchesCacheOrRemote :: "event \<Rightarrow> bool" where
  "touchesCacheOrRemote (CacheGet k) = True"
| "touchesCacheOrRemote (CacheSet k v t) = True"
| "touchesCacheOrRemote (HttpGet u ci ai co ao) = True"
| "touchesCacheOrRemote e = False"

fun isHttpGet :: "event \<Rightarrow> bool" where
  "isHttpGet (HttpGet u ci ai co ao) = True"
| "isHttpGet e = False"

subsection \<open>Sample surroundings\<close>

text \<open>
  A fetcher with distinct positive and negative times to live, and surroundings built from
  a script: the values the successive flag reads return (off once the script is used up),
  what the cache store's \<open>get\<close> and \<open>set\<close> throw, if anything, and the reply of the portion
  service. The store starts empty and nothing has happened yet.
\<close>

definition sampleFetcher :: PortionFetcher where
  "sampleFetcher =
     \<lparr>portionApiUrl = ''https://portion.example'',
      positiveCacheEntryTtl = 600,
      negativeCacheEntryTtl = 60\<rparr>"

definition scriptedWorld ::
  "bool list \<Rightarrow> error option \<Rightarrow> error option \<Rightarrow> error + GetPortionResponse \<Rightarrow> world" where
  "scriptedWorld flags getErr setErr reply =
     \<lparr>flagAt = (\<lambda>n. n < length flags \<and> flags ! n),
      flagReads = 0,
      cacheData = Map.empty,
      cacheGetError = (\<lambda>k. getErr),
      cacheSetError = (\<lambda>k. setErr),
      httpGet = (\<lambda>url ci ai co ao. reply),
      trace = []\<rparr>"

definition regressivePortion :: GetPortionResponse where
  "regressivePortion =
     \<lparr>hasPortion = True,
      portion = Some \<lparr>bips = 15,
                      recipient = ''0x1111111111111111111111111111111111111111'',
                      type = Regressive\<rparr>\<rparr>"

section \<open>Quotes\<close>

subsection \<open>Data (ClassicQuote.ts, lines 51 to 96)\<close>

text \<open>
  \<open>TradeType\<close> is the two-member enum of the SDK. Of the originating request the quote
  reads its \<open>info\<close>: the trade type (\<open>info.type\<close> in the source), the token-in address and
  chain, and the requester's address \<open>swapper\<close>, which may be missing.
\<close>

datatype TradeType = EXACT_INPUT | EXACT_OUTPUT

record QuoteRequestInfo =
  requestId :: string
  tokenInChainId :: int
  tokenOutChainId :: int
  tokenIn :: string
  tokenOut :: string
  type' :: TradeType
  swapper :: "string option"

record QuoteRequest =
  info :: QuoteRequestInfo

text \<open>
  \<open>PermitDetails\<close> is the allowance record of the permit SDK; its big-number fields are
  modelled by the integer they hold.
\<close>

record PermitDetails =
  token :: string
  amount :: int
  expiration :: int
  nonce :: int

text \<open>
  The fields of the raw payload that the accessors read. \<open>quoteGasAndPortionAdjusted\<close> is
  optional in the payload.
\<close>

record ClassicQuoteDataJSON =
  amount :: string
  quote :: string
  quoteGasAdjusted :: string
  quoteGasAndPortionAdjusted :: "string option"
  gasPriceWei :: string
  portionBips :: "int option"
  portionRecipient :: "string option"

record ClassicQuote =
  request :: QuoteRequest
  quoteData :: ClassicQuoteDataJSON
  allowanceData :: "PermitDetails option"
  quoteId :: string
  createdAtMs :: string
  createdAt :: string

text \<open>
  The functions of other modules that a quote calls: \<open>BigNumber.from\<close> of the big-number
  library, which reads a string as an arbitrary-precision integer or throws, and
  \<open>createPermitData\<close> of \<open>util/permit2\<close>, which builds permit data from a token address, a
  chain id and a nonce. Both are parameters of the model, so that what is proved holds for
  every behaviour of theirs.
\<close>

record 'p externals =
  BigNumber_from :: "string \<Rightarrow> error + int"
  createPermitData :: "string \<Rightarrow> int \<Rightarrow> string \<Rightarrow> 'p"

subsection \<open>ClassicQuote (ClassicQuote.ts, lines 82 to 215)\<close>

text \<open>
  Lines 89 to 96. The identifier and the two timestamps are drawn from the surroundings when
  the quote is constructed (\<open>uuidv4\<close>, \<open>currentTimestampInMs\<close>, \<open>timestampInMstoSeconds\<close>); they
  are passed as arguments. No allowance is recorded at construction.
\<close>

definition fromResponseBody ::
  "string \<Rightarrow> string \<Rightarrow> string \<Rightarrow> QuoteRequest \<Rightarrow> ClassicQuoteDataJSON \<Rightarrow> ClassicQuote" where
  "fromResponseBody uuid ms secs req body =
     \<lparr>request = req, quoteData = body, allowanceData = None,
      quoteId = uuid, createdAtMs = ms, createdAt = secs\<rparr>"

definition amountOut :: "'p externals \<Rightarrow> ClassicQuote \<Rightarrow> error + int" where
  "amountOut ext this =
     (if type' (info (request this)) = EXACT_INPUT
      then BigNumber_from ext (quote (quoteData this))
      else BigNumber_from ext (amount (quoteData this)))"

definition amountOutGasAdjusted :: "'p externals \<Rightarrow> ClassicQuote \<Rightarrow> error + int" where
  "amountOutGasAdjusted ext this =
     (if type' (info (request this)) = EXACT_INPUT
      then BigNumber_from ext (quoteGasAdjusted (quoteData this))
      else BigNumber_from ext (amount (quoteData this)))"

definition amountOutGasAndPortionAdjusted :: "'p externals \<Rightarrow> ClassicQuote \<Rightarrow> error + int" where
  "amountOutGasAndPortionAdjusted ext this =
     (if type' (info (request this)) = EXACT_INPUT
      then BigNumber_from ext
             (case quoteGasAndPortionAdjusted (quoteData this) of
                Some v \<Rightarrow> v
              | None \<Rightarrow> quoteGasAdjusted (quoteData this))
      else BigNumber_from ext (amount (quoteData this)))"

definition amountIn :: "'p externals \<Rightarrow> ClassicQuote \<Rightarrow> error + int" where
  "amountIn ext this =
     (if type' (info (request this)) = EXACT_OUTPUT
      then BigNumber_from ext (quote (quoteData this))
      else BigNumber_from ext (amount (quoteData this)))"

definition amountInGasAdjusted :: "'p externals \<Rightarrow> ClassicQuote \<Rightarrow> error + int" where
  "amountInGasAdjusted ext this =
     (if type' (info (request this)) = EXACT_OUTPUT
      then BigNumber_from ext (quoteGasAdjusted (quoteData this))
      else BigNumber_from ext (amount (quoteData this)))"

definition amountInGasAndPortionAdjusted :: "'p externals \<Rightarrow> ClassicQuote \<Rightarrow> error + int" where
  "amountInGasAndPortionAdjusted ext this =
     (if type' (info (request this)) = EXACT_OUTPUT
      then BigNumber_from ext
             (case quoteGasAndPortionAdjusted (quoteData this) of
                Some v \<Rightarrow> v
              | None \<Rightarrow> quoteGasAdjusted (quoteData this))
      else BigNumber_from ext (amount (quoteData this)))"

definition setAllowanceData :: "PermitDetails option \<Rightarrow> ClassicQuote \<Rightarrow> ClassicQuote" where
  "setAllowanceData data this = this\<lparr>allowanceData := data\<rparr>"

definition getPortionBips :: "ClassicQuote \<Rightarrow> int option" where
  "getPortionBips this = portionBips (quoteData this)"

definition getPortionRecipient :: "ClassicQuote \<Rightarrow> string option" where
  "getPortionRecipient this = portionRecipient (quoteData this)"

text \<open>
  \<open>!this.request.info.swapper\<close>: a missing address and the empty string are both falsy.
\<close>

definition noSwapper :: "ClassicQuote \<Rightarrow> bool" where
  "noSwapper this =
     (case swapper (info (request this)) of None \<Rightarrow> True | Some s \<Rightarrow> s = [])"

text \<open>
  \<open>getPermitData\<close>, lines 138 to 152. \<open>nowMs\<close> is \<open>new Date().getTime()\<close>. The comparison with
  the allowance evaluates \<open>this.amountIn\<close>, which throws when the big-number library rejects
  the payload's string.
\<close>

definition getPermitData :: "'p externals \<Rightarrow> int \<Rightarrow> ClassicQuote \<Rightarrow> error + 'p option" where
  "getPermitData ext nowMs this =
     (if noSwapper this then Inr None
      else
        (case allowanceData this of
           None \<Rightarrow>
             Inr (Some (createPermitData ext (tokenIn (info (request this)))
                          (tokenInChainId (info (request this))) ''0''))
         | Some a \<Rightarrow>
             (case amountIn ext this of
                Inl e \<Rightarrow> Inl e
              | Inr required \<Rightarrow>
                  if PermitDetails.amount a \<ge> required \<and> expiration a > nowMs div 1000
                  then Inr None
                  else Inr (Some (createPermitData ext (tokenIn (info (request this)))
                                    (tokenInChainId (info (request this)))
                                    (numberToString (nonce a)))))))"

subsection \<open>Parsing a quote (quoteResponse.ts, lines 72 to 94)\<close>

text \<open>
  Modelled from the spec: the routing-type tags \<open>DUTCH_LIMIT\<close> and \<open>CLASSIC\<close> of the enum
  \<open>RoutingType\<close> of \<open>constants\<close>. At run time a tag is a string, and a caller can pass any.
\<close>

type_synonym RoutingType = string

definition DUTCH_LIMIT :: RoutingType where
  "DUTCH_LIMIT = ''DUTCH_LIMIT''"

definition CLASSIC :: RoutingType where
  "CLASSIC = ''CLASSIC''"

datatype 'd Quote = Dutch 'd | Classic ClassicQuote

text \<open>
  The raw payload has type \<open>'j\<close>. \<open>asClassic\<close> is the unchecked cast of the payload to the
  classic shape, and \<open>dutchFromResponseBody\<close> is the constructor of the limit-order quote,
  which belongs to another module.
\<close>

definition parseQuote ::
  "(QuoteRequest \<Rightarrow> 'j \<Rightarrow> 'd) \<Rightarrow> ('j \<Rightarrow> ClassicQuoteDataJSON) \<Rightarrow> string \<Rightarrow> string \<Rightarrow> string
     \<Rightarrow> QuoteRequest \<Rightarrow> RoutingType \<Rightarrow> 'j \<Rightarrow> error + 'd Quote" where
  "parseQuote dutchFromResponseBody asClassic uuid ms secs req routing raw =
     (if routing = DUTCH_LIMIT then Inr (Dutch (dutchFromResponseBody req raw))
      else if routing = CLASSIC
        then Inr (Classic (fromResponseBody uuid ms secs req (asClassic raw)))
      else Inl (Error (''Unknown routing type: '' @ routing)))"

definition buildQuoteResponse ::
  "(QuoteRequest \<Rightarrow> 'j \<Rightarrow> 'd) \<Rightarrow> ('j \<Rightarrow> ClassicQuoteDataJSON) \<Rightarrow> string \<Rightarrow> string \<Rightarrow> string
     \<Rightarrow> RoutingType \<times> 'j \<Rightarrow> QuoteRequest \<Rightarrow> error + 'd Quote" where
  "buildQuoteResponse dutchFromResponseBody asClassic uuid ms secs body req =
     parseQuote dutchFromResponseBody asClassic uuid ms secs req (fst body) (snd body)"

subsection \<open>Sample quotes\<close>

text \<open>
  A big-number reader for the samples: it accepts the decimal strings, with an optional
  minus sign, and throws on anything else. The sample permit data is the triple of the
  arguments it was built from.
\<close>

definition isDigit :: "char \<Rightarrow> bool" where
  "isDigit c = (48 \<le> (of_char c :: nat) \<and> (of_char c :: nat) \<le> 57)"

fun decimalValue :: "nat \<Rightarrow> string \<Rightarrow> nat" where
  "decimalValue acc [] = acc"
| "decimalValue acc (c # cs) = decimalValue (10 * acc + (of_char c - 48)) cs"

definition readDecimal :: "string \<Rightarrow> error + int" where
  "readDecimal s =
     (if take 1 s = ''-'' \<and> drop 1 s \<noteq> [] \<and> list_all isDigit (drop 1 s)
        then Inr (- int (decimalValue 0 (drop 1 s)))
      else if s \<noteq> [] \<and> list_all isDigit s then Inr (int (decimalValue 0 s))
      else Inl (Error ''invalid BigNumber string''))"

definition sampleExternals :: "(string \<times> int \<times> string) externals" where
  "sampleExternals =
     \<lparr>BigNumber_from = readDecimal, createPermitData = (\<lambda>t c n. (t, c, n))\<rparr>"

definition sampleRequest :: "TradeType \<Rightarrow> string option \<Rightarrow> QuoteRequest" where
  "sampleRequest tt sw =
     \<lparr>info = \<lparr>requestId = ''request-1'',
               tokenInChainId = 1,
               tokenOutChainId = 1,
               tokenIn = ''0xa0b86991c6218b36c1d19d4a2e9eb0ce3606eb48'',
               tokenOut = ''0xc02aaa39b223fe8d0a0e5c4f27ead9083c756cc2'',
               type' = tt,
               swapper = sw\<rparr>\<rparr>"

definition sampleBody :: "string option \<Rightarrow> ClassicQuoteDataJSON" where
  "sampleBody adjusted =
     \<lparr>amount = ''100'',
      quote = ''95'',
      quoteGasAdjusted = ''93'',
      quoteGasAndPortionAdjusted = adjusted,
      gasPriceWei = ''1000000000'',
      portionBips = None,
      portionRecipient = None\<rparr>"

definition sampleQuote :: "TradeType \<Rightarrow> string option \<Rightarrow> string option \<Rightarrow> ClassicQuote" where
  "sampleQuote tt sw adjusted =
     fromResponseBody ''quote-1'' ''1700000000000'' ''1700000000''
       (sampleRequest tt sw) (sampleBody adjusted)"

definition sampleAllowance :: "int \<Rightarrow> int \<Rightarrow> PermitDetails" where
  "sampleAllowance amt expiry =
     \<lparr>token = ''0xa0b86991c6218b36c1d19d4a2e9eb0ce3606eb48'',
      PermitDetails.amount = amt,
      expiration = expiry,
      nonce = 7\<rparr>"

section \<open>Properties of the portion fetcher\<close>

subsection \<open>Letter casing\<close>

lemma charToLowerCase_not_upper: "isUpperCase c \<Longrightarrow> \<not> isUpperCase (charToLowerCase c)"
  unfolding charToLowerCase_def isUpperCase_def Let_def
  by auto

lemma sameLetter_lower: "sameLetter c d \<Longrightarrow> charToLowerCase c = charToLowerCase d"
  unfolding sameLetter_def
  using charToLowerCase_not_upper charToLowerCase_def by metis

lemma equalUpToCasing_lower: "equalUpToCasing s t \<Longrightarrow> toLowerCase s = toLowerCase t"
  unfolding equalUpToCasing_def toLowerCase_def
  by (induction s t rule: list_all2_induct) (simp_all add: sameLetter_lower)

subsection \<open>The three ways through the flag checks\<close>

lemma getPortion_flag_on:
  assumes "flagAt w (flagReads w)"
  shows "getPortion fp this ci a co b w =
     (if toLowerCase a \<in> set BX_PORTION_ADDRESSES \<and> toLowerCase b \<in> set BX_PORTION_ADDRESSES
      then Inr BX_PORTION_RESPONSE else Inr GET_NO_PORTION_RESPONSE,
      w\<lparr>flagReads := Suc (flagReads w),
        trace := trace w @ [PutMetric ''PortionFetcherRequest'', FlagRead True]\<rparr>)"
  using assms
  by (simp add: getPortion_def uraEnablePortion_def putMetric_def emit_def Let_def)

lemma getPortion_flag_off_off:
  assumes "\<not> flagAt w (flagReads w)" and "\<not> flagAt w (Suc (flagReads w))"
  shows "getPortion fp this ci a co b w =
     (Inr GET_NO_PORTION_RESPONSE,
      w\<lparr>flagReads := Suc (Suc (flagReads w)),
        trace := trace w @ [PutMetric ''PortionFetcherRequest'', FlagRead False, FlagRead False,
                            PutMetric ''PortionFetcherFlagDisabled'']\<rparr>)"
  using assms
  by (simp add: getPortion_def uraEnablePortion_def putMetric_def emit_def Let_def)

lemma getPortion_flag_off_on:
  assumes "\<not> flagAt w (flagReads w)" and "flagAt w (Suc (flagReads w))"
  shows "getPortion fp this ci a co b w =
     cacheAside fp this ci a co b
       (w\<lparr>flagReads := Suc (Suc (flagReads w)),
          trace := trace w @ [PutMetric ''PortionFetcherRequest'', FlagRead False, FlagRead True]\<rparr>)"
  using assms
  by (simp add: getPortion_def uraEnablePortion_def putMetric_def emit_def Let_def)

lemma newEvents_append: "trace w' = trace w @ evs \<Longrightarrow> newEvents w w' = evs"
  by (simp add: newEvents_def)

lemma cacheAside_touches:
  "\<exists>evs. trace (snd (cacheAside fp this ci a co b w)) = trace w @ evs
      \<and> list_ex touchesCacheOrRemote evs"
  by (auto simp: cacheAside_def portionFromCache_def cacheGet_def tryFetch_def
      portionServiceGet_def cacheSet_def putMetric_def logError_def emit_def Let_def
      split: option.splits sum.splits prod.splits)

lemma getPortion_off_on_touches:
  assumes "\<not> flagAt w (flagReads w)" and "flagAt w (Suc (flagReads w))"
  shows "list_ex touchesCacheOrRemote (newEvents w (snd (getPortion fp this ci a co b w)))"
proof -
  let ?w1 = "w\<lparr>flagReads := Suc (Suc (flagReads w)),
          trace := trace w @ [PutMetric ''PortionFetcherRequest'', FlagRead False, FlagRead True]\<rparr>"
  obtain evs where evs: "trace (snd (cacheAside fp this ci a co b ?w1)) = trace ?w1 @ evs"
    and ex: "list_ex touchesCacheOrRemote evs"
    using cacheAside_touches by blast
  have "trace (snd (getPortion fp this ci a co b w))
      = trace w @ ([PutMetric ''PortionFetcherRequest'', FlagRead False, FlagRead True] @ evs)"
    using evs by (simp add: getPortion_flag_off_on [OF assms])
  then have "newEvents w (snd (getPortion fp this ci a co b w))
      = [PutMetric ''PortionFetcherRequest'', FlagRead False, FlagRead True] @ evs"
    by (rule newEvents_append)
  with ex show ?thesis by simp
qed

lemma cacheAside_throws_iff:
  "(\<exists>e. fst (cacheAside fp this ci a co b w) = Inl e)
     \<longleftrightarrow> (\<not> fp \<and> cacheGetError w (PORTION_CACHE_KEY ci a co b) \<noteq> None)"
  by (auto simp: cacheAside_def portionFromCache_def cacheGet_def
      split: option.splits sum.splits prod.splits)

lemma tryFetch_remote_fails:
  "httpGet w (getPortionFullPath this) ci a co b = Inl e
     \<Longrightarrow> \<exists>e' w'. tryFetch fp this ci a co b w = (Inl e', w')"
  by (simp add: tryFetch_def portionServiceGet_def)

lemma tryFetch_set_throws:
  "\<not> fp \<Longrightarrow> cacheSetError w (PORTION_CACHE_KEY ci a co b) \<noteq> None
     \<Longrightarrow> httpGet w (getPortionFullPath this) ci a co b = Inr dat
     \<Longrightarrow> \<exists>e' w'. tryFetch fp this ci a co b w = (Inl e', w')"
  by (auto simp: tryFetch_def portionServiceGet_def cacheSet_def putMetric_def emit_def Let_def
      split: option.splits)

lemma cacheAside_absorbs:
  assumes "\<exists>e' w'. tryFetch fp this ci a co b w1 = (Inl e', w')"
    and "portionFromCache fp ci a co b w = (Inr None, w1)"
  shows "fst (cacheAside fp this ci a co b w) = Inr GET_NO_PORTION_RESPONSE"
  using assms by (auto simp: cacheAside_def)

subsection \<open>Claims about the portion fetcher\<close>

text \<open>
  C10. The cache key does not depend on the letter casing of either address: when the two
  input addresses are equal up to letter casing, and so are the two output addresses, the
  keys computed with the same chain ids are equal.
\<close>

theorem PORTION_CACHE_KEY_case_insensitive:
  assumes "equalUpToCasing inAddress inAddress'"
    and "equalUpToCasing outAddress outAddress'"
  shows "PORTION_CACHE_KEY inChain inAddress outChain outAddress
       = PORTION_CACHE_KEY inChain inAddress' outChain outAddress'"
  using assms by (simp add: PORTION_CACHE_KEY_def equalUpToCasing_lower)

theorem PORTION_CACHE_KEY_case_insensitive_witness:
  "equalUpToCasing ''0xABC'' ''0xabc'' \<and> equalUpToCasing ''0xdef'' ''0xDEF''
     \<and> PORTION_CACHE_KEY 1 ''0xABC'' 1 ''0xdef'' = PORTION_CACHE_KEY 1 ''0xabc'' 1 ''0xDEF''
     \<and> PORTION_CACHE_KEY 1 ''0xabc'' 1 ''0xDEF'' = ''PortionFetcher-1-0xabc-1-0xdef''"
proof -
  have i: "equalUpToCasing ''0xABC'' ''0xabc''" by code_simp
  have j: "equalUpToCasing ''0xdef'' ''0xDEF''" by code_simp
  have k: "PORTION_CACHE_KEY 1 ''0xabc'' 1 ''0xDEF'' = ''PortionFetcher-1-0xabc-1-0xdef''"
    by code_simp
  from PORTION_CACHE_KEY_case_insensitive [OF i j, of 1 1] i j k show ?thesis by simp
qed

text \<open>
  C1. When the flag reads enabled and both addresses, lower-cased, are on the allowlist,
  \<open>getPortion\<close> returns the constant flat-fee response (5 bips, the fixed recipient, type
  Flat), whatever the other arguments and the surroundings are; the call adds no event that
  reads or writes the cache store or invokes the remote client, and the store's content is
  unchanged.
\<close>

theorem getPortion_allowlisted_pair:
  assumes "flagAt w (flagReads w)"
    and "toLowerCase inAddress \<in> set BX_PORTION_ADDRESSES"
    and "toLowerCase outAddress \<in> set BX_PORTION_ADDRESSES"
  shows "fst (getPortion forcePortion this inChain inAddress outChain
                outAddress w)
           = Inr \<lparr>hasPortion = True,
                  portion = Some \<lparr>bips = 5,
                                  recipient = ''0x27213E28D7fDA5c57Fe9e5dD923818DBCcf71c47'',
                                  type = Flat\<rparr>\<rparr>
       \<and> \<not> list_ex touchesCacheOrRemote
             (newEvents w (snd (getPortion forcePortion this inChain inAddress
                                  outChain outAddress w)))
       \<and> cacheData (snd (getPortion forcePortion this inChain inAddress
                            outChain outAddress w)) = cacheData w"
  using assms
  by (simp add: getPortion_flag_on BX_PORTION_RESPONSE_def newEvents_def)

theorem getPortion_allowlisted_pair_witness:
  "fst (getPortion False sampleFetcher 1 ''0x0000000000000000000000000000000000000000''
          1 ''0xA0b86991c6218b36c1D19D4a2e9Eb0cE3606eB48''
          (scriptedWorld [True] None None (Inr regressivePortion)))
     = Inr \<lparr>hasPortion = True,
            portion = Some \<lparr>bips = 5,
                            recipient = ''0x27213E28D7fDA5c57Fe9e5dD923818DBCcf71c47'',
                            type = Flat\<rparr>\<rparr>"
proof -
  have f: "flagAt (scriptedWorld [True] None None (Inr regressivePortion))
             (flagReads (scriptedWorld [True] None None (Inr regressivePortion)))"
    by (simp add: scriptedWorld_def)
  have i: "toLowerCase ''0x0000000000000000000000000000000000000000'' \<in> set BX_PORTION_ADDRESSES"
    by code_simp
  have j: "toLowerCase ''0xA0b86991c6218b36c1D19D4a2e9Eb0cE3606eB48'' \<in> set BX_PORTION_ADDRESSES"
    by code_simp
  from getPortion_allowlisted_pair [OF f i j, of False sampleFetcher 1 1]
  show ?thesis by simp
qed

text \<open>
  C2. When the flag reads enabled, the call adds no event that reads or writes the cache
  store or invokes the remote client and leaves the store's content unchanged (the
  cache-aside path is not reached); and when in addition at least one of the two addresses,
  lower-cased, is not on the allowlist, the call returns the no-portion response.
\<close>

theorem getPortion_enabled_not_allowlisted:
  assumes "flagAt w (flagReads w)"
  shows "\<not> list_ex touchesCacheOrRemote
             (newEvents w (snd (getPortion forcePortion this inChain inAddress
                                  outChain outAddress w)))
       \<and> cacheData (snd (getPortion forcePortion this inChain inAddress
                            outChain outAddress w)) = cacheData w
       \<and> (toLowerCase inAddress \<notin> set BX_PORTION_ADDRESSES
            \<or> toLowerCase outAddress \<notin> set BX_PORTION_ADDRESSES
          \<longrightarrow> fst (getPortion forcePortion this inChain inAddress outChain
                      outAddress w)
                = Inr \<lparr>hasPortion = False, portion = None\<rparr>)"
  using assms
  by (auto simp add: getPortion_flag_on GET_NO_PORTION_RESPONSE_def newEvents_def)

theorem getPortion_enabled_not_allowlisted_witness:
  "fst (getPortion False sampleFetcher 1 ''0x0000000000000000000000000000000000000000''
          1 ''0x1f9840a85d5aF5bf1D1762F925BDADdC4201F984''
          (scriptedWorld [True] None None (Inr regressivePortion)))
     = Inr \<lparr>hasPortion = False, portion = None\<rparr>
   \<and> \<not> list_ex touchesCacheOrRemote
         (newEvents (scriptedWorld [True] None None (Inr regressivePortion))
            (snd (getPortion False sampleFetcher 1 ''0x0000000000000000000000000000000000000000''
                    1 ''0x1f9840a85d5aF5bf1D1762F925BDADdC4201F984''
                    (scriptedWorld [True] None None (Inr regressivePortion)))))"
proof -
  have f: "flagAt (scriptedWorld [True] None None (Inr regressivePortion))
             (flagReads (scriptedWorld [True] None None (Inr regressivePortion)))"
    by (simp add: scriptedWorld_def)
  have j: "toLowerCase ''0x1f9840a85d5aF5bf1D1762F925BDADdC4201F984'' \<notin> set BX_PORTION_ADDRESSES"
    by code_simp
  from getPortion_enabled_not_allowlisted [OF f, of False sampleFetcher 1
      "''0x0000000000000000000000000000000000000000''" 1
      "''0x1f9840a85d5aF5bf1D1762F925BDADdC4201F984''"] j
  show ?thesis by simp
qed

text \<open>
  C3. Let the first flag read of a call return \<open>f1\<close> and let \<open>f2\<close> be what the second read
  returns (or would return, as no second read is made after an enabled first one). When
  \<open>f1 = f2\<close>, the call adds no event that reads or writes the cache store or invokes the
  remote client, and the store's content is unchanged. The call adds such an event exactly
  when the first read is disabled and the second is enabled.
\<close>

theorem getPortion_cache_aside_only_on_flip:
  "(flagAt w (flagReads w) = flagAt w (Suc (flagReads w))
      \<longrightarrow> \<not> list_ex touchesCacheOrRemote
               (newEvents w (snd (getPortion forcePortion this inChain inAddress
                                    outChain outAddress w)))
          \<and> cacheData (snd (getPortion forcePortion this inChain inAddress
                               outChain outAddress w)) = cacheData w)
   \<and> (list_ex touchesCacheOrRemote
         (newEvents w (snd (getPortion forcePortion this inChain inAddress
                              outChain outAddress w)))
        \<longleftrightarrow> \<not> flagAt w (flagReads w) \<and> flagAt w (Suc (flagReads w)))"
proof (cases "flagAt w (flagReads w)")
  case True
  then show ?thesis by (simp add: getPortion_flag_on newEvents_def)
next
  case off: False
  show ?thesis
  proof (cases "flagAt w (Suc (flagReads w))")
    case True
    with off show ?thesis using getPortion_off_on_touches by simp
  next
    case False
    with off show ?thesis by (simp add: getPortion_flag_off_off newEvents_def)
  qed
qed

theorem getPortion_cache_aside_only_on_flip_witness:
  "\<not> list_ex touchesCacheOrRemote
       (newEvents (scriptedWorld [False, False] None None (Inr regressivePortion))
          (snd (getPortion False sampleFetcher 1 ''0xabc'' 1 ''0xdef''
                  (scriptedWorld [False, False] None None (Inr regressivePortion)))))
   \<and> list_ex touchesCacheOrRemote
       (newEvents (scriptedWorld [False, True] None None (Inr regressivePortion))
          (snd (getPortion False sampleFetcher 1 ''0xabc'' 1 ''0xdef''
                  (scriptedWorld [False, True] None None (Inr regressivePortion)))))"
proof -
  have a: "flagAt (scriptedWorld [False, False] None None (Inr regressivePortion))
             (flagReads (scriptedWorld [False, False] None None (Inr regressivePortion)))
         = flagAt (scriptedWorld [False, False] None None (Inr regressivePortion))
             (Suc (flagReads (scriptedWorld [False, False] None None (Inr regressivePortion))))"
    by (simp add: scriptedWorld_def)
  have b: "\<not> flagAt (scriptedWorld [False, True] None None (Inr regressivePortion))
             (flagReads (scriptedWorld [False, True] None None (Inr regressivePortion)))
         \<and> flagAt (scriptedWorld [False, True] None None (Inr regressivePortion))
             (Suc (flagReads (scriptedWorld [False, True] None None (Inr regressivePortion))))"
    by (simp add: scriptedWorld_def)
  from a b
    getPortion_cache_aside_only_on_flip [of "scriptedWorld [False, False] None None (Inr regressivePortion)"
      False sampleFetcher 1 "''0xabc''" 1 "''0xdef''"]
    getPortion_cache_aside_only_on_flip [of "scriptedWorld [False, True] None None (Inr regressivePortion)"
      False sampleFetcher 1 "''0xabc''" 1 "''0xdef''"]
  show ?thesis by blast
qed

subsection \<open>The cache-aside path\<close>

lemma getPortion_miss_success:
  assumes "\<not> fp"
    and "\<not> flagAt w (flagReads w)" and "flagAt w (Suc (flagReads w))"
    and "cacheGetError w (PORTION_CACHE_KEY ci a co b) = None"
    and "cacheSetError w (PORTION_CACHE_KEY ci a co b) = None"
    and "cacheData w (PORTION_CACHE_KEY ci a co b) = None"
    and "httpGet w (getPortionFullPath this) ci a co b = Inr dat"
    and "ttl = (if portion dat \<noteq> None then positiveCacheEntryTtl this
                else negativeCacheEntryTtl this)"
  shows "getPortion fp this ci a co b w =
     (Inr dat,
      w\<lparr>flagReads := Suc (Suc (flagReads w)),
        cacheData := (cacheData w)(PORTION_CACHE_KEY ci a co b \<mapsto> (dat, ttl)),
        trace := trace w @
          [PutMetric ''PortionFetcherRequest'', FlagRead False, FlagRead True,
           CacheGet (PORTION_CACHE_KEY ci a co b),
           HttpGet (getPortionFullPath this) ci a co b,
           PutMetric ''Latency-GetPortion'', PutMetric ''PortionFetcherSuccess'',
           PutMetric ''PortionFetcherCacheMiss'',
           CacheSet (PORTION_CACHE_KEY ci a co b) dat ttl]\<rparr>)"
  using assms
  by (simp add: getPortion_flag_off_on cacheAside_def portionFromCache_def cacheGet_def
      tryFetch_def portionServiceGet_def cacheSet_def putMetric_def emit_def Let_def)

lemma getPortion_hit:
  assumes "\<not> fp"
    and "\<not> flagAt w (flagReads w)" and "flagAt w (Suc (flagReads w))"
    and "cacheGetError w (PORTION_CACHE_KEY ci a co b) = None"
    and "cacheData w (PORTION_CACHE_KEY ci a co b) = Some (v, t)"
  shows "getPortion fp this ci a co b w =
     (Inr v,
      w\<lparr>flagReads := Suc (Suc (flagReads w)),
        trace := trace w @
          [PutMetric ''PortionFetcherRequest'', FlagRead False, FlagRead True,
           CacheGet (PORTION_CACHE_KEY ci a co b),
           PutMetric ''PortionFetcherCacheHit'']\<rparr>)"
  using assms
  by (simp add: getPortion_flag_off_on cacheAside_def portionFromCache_def cacheGet_def
      putMetric_def emit_def)

lemma getPortion_throws_iff:
  "(\<exists>e. fst (getPortion fp this ci a co b w) = Inl e)
     \<longleftrightarrow> (\<not> flagAt w (flagReads w) \<and> flagAt w (Suc (flagReads w)) \<and> \<not> fp
          \<and> cacheGetError w (PORTION_CACHE_KEY ci a co b) \<noteq> None)"
proof (cases "flagAt w (flagReads w)")
  case True
  then show ?thesis by (simp add: getPortion_flag_on)
next
  case off: False
  show ?thesis
  proof (cases "flagAt w (Suc (flagReads w))")
    case True
    with off show ?thesis by (simp add: getPortion_flag_off_on cacheAside_throws_iff)
  next
    case False
    with off show ?thesis by (simp add: getPortion_flag_off_off)
  qed
qed

lemma cacheAside_absorbs_failure:
  assumes "fp \<or> (cacheGetError w (PORTION_CACHE_KEY ci a co b) = None
               \<and> cacheData w (PORTION_CACHE_KEY ci a co b) = None)"
    and "(\<exists>e. httpGet w (getPortionFullPath this) ci a co b = Inl e)
          \<or> (\<not> fp \<and> cacheSetError w (PORTION_CACHE_KEY ci a co b) \<noteq> None)"
  shows "fst (cacheAside fp this ci a co b w) = Inr GET_NO_PORTION_RESPONSE"
proof -
  define w1 where "w1 = (if fp then w else emit (CacheGet (PORTION_CACHE_KEY ci a co b)) w)"
  have rd: "portionFromCache fp ci a co b w = (Inr None, w1)"
    using assms(1) by (auto simp: w1_def portionFromCache_def cacheGet_def)
  have same: "httpGet w1 = httpGet w" "cacheSetError w1 = cacheSetError w"
    by (simp_all add: w1_def emit_def)
  have "\<exists>e' w'. tryFetch fp this ci a co b w1 = (Inl e', w')"
  proof (cases "httpGet w (getPortionFullPath this) ci a co b")
    case (Inl e)
    then show ?thesis using same by (simp add: tryFetch_remote_fails)
  next
    case (Inr dat)
    with assms(2) same show ?thesis by (simp add: tryFetch_set_throws)
  qed
  then show ?thesis using rd by (rule cacheAside_absorbs)
qed

lemma getPortion_absorbs:
  assumes "\<not> flagAt w (flagReads w)" and "flagAt w (Suc (flagReads w))"
    and "fp \<or> (cacheGetError w (PORTION_CACHE_KEY ci a co b) = None
               \<and> cacheData w (PORTION_CACHE_KEY ci a co b) = None)"
    and "(\<exists>e. httpGet w (getPortionFullPath this) ci a co b = Inl e)
          \<or> (\<not> fp \<and> cacheSetError w (PORTION_CACHE_KEY ci a co b) \<noteq> None)"
  shows "fst (getPortion fp this ci a co b w) = Inr GET_NO_PORTION_RESPONSE"
  unfolding getPortion_flag_off_on [OF assms(1,2)]
  by (rule cacheAside_absorbs_failure) (use assms(3,4) in simp_all)

text \<open>
  C4, as stated, fails: with the flag read as disabled and then as enabled and the
  force-bypass mode off, the cache store is read before the \<open>try\<close> block is entered, and an
  error thrown by that read reaches the caller.
\<close>

theorem getPortion_cache_get_throws_counterexample:
  "fst (getPortion False sampleFetcher 1 ''0xabc'' 1 ''0xdef''
          (scriptedWorld [False, True] (Some (Error ''cache get failed'')) None
             (Inr regressivePortion)))
     = Inl (Error ''cache get failed'')"
  by code_simp

text \<open>
  C4, amended. \<open>getPortion\<close> throws exactly when the cache store's \<open>get\<close> throws, which
  needs the cache-aside path (flag read as disabled, then as enabled) with the force-bypass
  mode off. A failure of the remote client, or of the cache store's \<open>set\<close> after a
  successful remote call, reached after a cache miss or with the store bypassed, is absorbed:
  the call returns the no-portion response.
\<close>

theorem getPortion_throws_only_from_cache_get:
  "((\<exists>e. fst (getPortion forcePortion this inChain inAddress outChain
                outAddress w) = Inl e)
      \<longleftrightarrow> (\<not> flagAt w (flagReads w) \<and> flagAt w (Suc (flagReads w)) \<and> \<not> forcePortion
           \<and> cacheGetError w (PORTION_CACHE_KEY inChain inAddress outChain
                                outAddress) \<noteq> None))
   \<and> (\<not> flagAt w (flagReads w) \<and> flagAt w (Suc (flagReads w))
        \<and> (forcePortion
             \<or> (cacheGetError w (PORTION_CACHE_KEY inChain inAddress outChain
                                   outAddress) = None
                \<and> cacheData w (PORTION_CACHE_KEY inChain inAddress outChain
                                  outAddress) = None))
        \<and> ((\<exists>e. httpGet w (getPortionFullPath this) inChain inAddress
                    outChain outAddress = Inl e)
             \<or> (\<not> forcePortion
                \<and> cacheSetError w (PORTION_CACHE_KEY inChain inAddress
                                      outChain outAddress) \<noteq> None))
      \<longrightarrow> fst (getPortion forcePortion this inChain inAddress outChain
                  outAddress w) = Inr GET_NO_PORTION_RESPONSE)"
  apply (rule conjI)
   apply (rule getPortion_throws_iff)
  apply (rule impI)
  apply (elim conjE)
  apply (rule getPortion_absorbs; assumption)
  done

theorem getPortion_throws_only_from_cache_get_witness:
  "fst (getPortion False sampleFetcher 1 ''0xabc'' 1 ''0xdef''
          (scriptedWorld [False, True] None None (Inl (Error ''Network Error''))))
     = Inr GET_NO_PORTION_RESPONSE
   \<and> fst (getPortion False sampleFetcher 1 ''0xabc'' 1 ''0xdef''
          (scriptedWorld [False, True] None (Some (Error ''ECACHEFULL'')) (Inr regressivePortion)))
     = Inr GET_NO_PORTION_RESPONSE
   \<and> (\<exists>e. fst (getPortion False sampleFetcher 1 ''0xabc'' 1 ''0xdef''
          (scriptedWorld [False, True] (Some (Error ''cache get failed'')) None
             (Inr regressivePortion))) = Inl e)"
proof -
  have a: "fst (getPortion False sampleFetcher 1 ''0xabc'' 1 ''0xdef''
          (scriptedWorld [False, True] None None (Inl (Error ''Network Error''))))
     = Inr GET_NO_PORTION_RESPONSE"
    using getPortion_throws_only_from_cache_get [of False sampleFetcher 1 "''0xabc''" 1 "''0xdef''"
        "scriptedWorld [False, True] None None (Inl (Error ''Network Error''))"]
    by (simp add: scriptedWorld_def)
  have b: "fst (getPortion False sampleFetcher 1 ''0xabc'' 1 ''0xdef''
          (scriptedWorld [False, True] None (Some (Error ''ECACHEFULL'')) (Inr regressivePortion)))
     = Inr GET_NO_PORTION_RESPONSE"
    using getPortion_throws_only_from_cache_get [of False sampleFetcher 1 "''0xabc''" 1 "''0xdef''"
        "scriptedWorld [False, True] None (Some (Error ''ECACHEFULL'')) (Inr regressivePortion)"]
    by (simp add: scriptedWorld_def)
  have c: "\<exists>e. fst (getPortion False sampleFetcher 1 ''0xabc'' 1 ''0xdef''
          (scriptedWorld [False, True] (Some (Error ''cache get failed'')) None
             (Inr regressivePortion))) = Inl e"
    using getPortion_throws_only_from_cache_get [of False sampleFetcher 1 "''0xabc''" 1 "''0xdef''"
        "scriptedWorld [False, True] (Some (Error ''cache get failed'')) None
             (Inr regressivePortion)"]
    by (simp add: scriptedWorld_def)
  from a b c show ?thesis by simp
qed

text \<open>
  C5. On the cache-aside path (flag read as disabled, then as enabled) with the force-bypass
  mode off, a miss in the cache store followed by a successful remote response \<open>dat\<close>
  returns \<open>dat\<close>, invokes the remote client once, and writes \<open>dat\<close> to the store under the
  computed key with the positive time to live when \<open>dat\<close> carries a portion and with the
  negative one when it does not. A second call with the same arguments, again on the
  cache-aside path, finds the entry, returns \<open>dat\<close> and does not invoke the remote client.
\<close>

theorem getPortion_caches_then_hits:
  fixes w :: world
    and this :: PortionFetcher
    and inChain outChain :: int
    and inAddress outAddress :: string
    and forcePortion :: bool
    and dat :: GetPortionResponse
  defines "key \<equiv> PORTION_CACHE_KEY inChain inAddress outChain outAddress"
    and "w1 \<equiv> snd (getPortion forcePortion this inChain inAddress outChain
                     outAddress w)"
  defines "w2 \<equiv> snd (getPortion forcePortion this inChain inAddress outChain
                     outAddress w1)"
    and "ttl \<equiv> (if portion dat \<noteq> None then positiveCacheEntryTtl this
                  else negativeCacheEntryTtl this)"
  assumes "\<not> forcePortion"
    and "\<not> flagAt w (flagReads w)" and "flagAt w (Suc (flagReads w))"
    and "\<not> flagAt w (Suc (Suc (flagReads w)))" and "flagAt w (Suc (Suc (Suc (flagReads w))))"
    and "cacheGetError w key = None" and "cacheSetError w key = None"
    and "cacheData w key = None"
    and "httpGet w (getPortionFullPath this) inChain inAddress outChain
           outAddress = Inr dat"
  shows "fst (getPortion forcePortion this inChain inAddress outChain
                outAddress w) = Inr dat
       \<and> filter isHttpGet (newEvents w w1)
           = [HttpGet (getPortionFullPath this) inChain inAddress outChain
                outAddress]
       \<and> filter touchesCacheOrRemote (newEvents w w1)
           = [CacheGet key,
              HttpGet (getPortionFullPath this) inChain inAddress outChain
                outAddress,
              CacheSet key dat ttl]
       \<and> cacheData w1 key = Some (dat, ttl)
       \<and> fst (getPortion forcePortion this inChain inAddress outChain
                outAddress w1) = Inr dat
       \<and> filter isHttpGet (newEvents w1 w2) = []"
proof -
  note first = getPortion_miss_success [OF assms(5-7) assms(10-12) [unfolded key_def]
      assms(13) refl]
  have w1: "w1 = w\<lparr>flagReads := Suc (Suc (flagReads w)),
        cacheData := (cacheData w)(key \<mapsto> (dat, ttl)),
        trace := trace w @
          [PutMetric ''PortionFetcherRequest'', FlagRead False, FlagRead True,
           CacheGet key,
           HttpGet (getPortionFullPath this) inChain inAddress outChain
             outAddress,
           PutMetric ''Latency-GetPortion'', PutMetric ''PortionFetcherSuccess'',
           PutMetric ''PortionFetcherCacheMiss'',
           CacheSet key dat ttl]\<rparr>"
    unfolding w1_def key_def ttl_def by (simp add: first)
  have second: "getPortion forcePortion this inChain inAddress outChain
      outAddress w1 =
     (Inr dat,
      w1\<lparr>flagReads := Suc (Suc (flagReads w1)),
        trace := trace w1 @
          [PutMetric ''PortionFetcherRequest'', FlagRead False, FlagRead True,
           CacheGet key, PutMetric ''PortionFetcherCacheHit'']\<rparr>)"
    unfolding key_def
    by (rule getPortion_hit [where t = ttl]) (use assms(5-13) in \<open>simp_all add: w1 key_def\<close>)
  have w2: "trace w2 = trace w1 @
          [PutMetric ''PortionFetcherRequest'', FlagRead False, FlagRead True,
           CacheGet key, PutMetric ''PortionFetcherCacheHit'']"
    unfolding w2_def by (simp add: second)
  have ev1: "newEvents w w1 =
          [PutMetric ''PortionFetcherRequest'', FlagRead False, FlagRead True,
           CacheGet key,
           HttpGet (getPortionFullPath this) inChain inAddress outChain
             outAddress,
           PutMetric ''Latency-GetPortion'', PutMetric ''PortionFetcherSuccess'',
           PutMetric ''PortionFetcherCacheMiss'',
           CacheSet key dat ttl]"
    by (rule newEvents_append) (simp add: w1)
  have c1: "fst (getPortion forcePortion this inChain inAddress outChain
                outAddress w) = Inr dat"
    by (simp add: first)
  have c2: "filter isHttpGet (newEvents w w1)
           = [HttpGet (getPortionFullPath this) inChain inAddress outChain
                outAddress]"
    by (simp add: ev1)
  have c3: "filter touchesCacheOrRemote (newEvents w w1)
           = [CacheGet key,
              HttpGet (getPortionFullPath this) inChain inAddress outChain
                outAddress,
              CacheSet key dat ttl]"
    by (simp add: ev1)
  have c4: "cacheData w1 key = Some (dat, ttl)"
    by (simp add: w1)
  have c5: "fst (getPortion forcePortion this inChain inAddress outChain
                outAddress w1) = Inr dat"
    by (simp add: second)
  have c6: "filter isHttpGet (newEvents w1 w2) = []"
    by (simp add: newEvents_append [OF w2])
  from c1 c2 c3 c4 c5 c6 show ?thesis by blast
qed

theorem getPortion_caches_then_hits_witness:
  "fst (getPortion False sampleFetcher 1 ''0xABC'' 1 ''0xdef''
          (scriptedWorld [False, True, False, True] None None (Inr regressivePortion)))
     = Inr regressivePortion
   \<and> cacheData
        (snd (getPortion False sampleFetcher 1 ''0xABC'' 1 ''0xdef''
                (scriptedWorld [False, True, False, True] None None (Inr regressivePortion))))
        ''PortionFetcher-1-0xabc-1-0xdef''
     = Some (regressivePortion, 600)
   \<and> fst (getPortion False sampleFetcher 1 ''0xABC'' 1 ''0xdef''
            (snd (getPortion False sampleFetcher 1 ''0xABC'' 1 ''0xdef''
                (scriptedWorld [False, True, False, True] None None (Inr regressivePortion)))))
     = Inr regressivePortion
   \<and> cacheData
        (snd (getPortion False sampleFetcher 1 ''0xABC'' 1 ''0xdef''
                (scriptedWorld [False, True, False, True] None None
                   (Inr GET_NO_PORTION_RESPONSE))))
        ''PortionFetcher-1-0xabc-1-0xdef''
     = Some (GET_NO_PORTION_RESPONSE, 60)"
proof -
  have k: "PORTION_CACHE_KEY 1 ''0xABC'' 1 ''0xdef'' = ''PortionFetcher-1-0xabc-1-0xdef''"
    by code_simp
  have p: "portion regressivePortion \<noteq> None"
    by (simp add: regressivePortion_def)
  have n: "portion GET_NO_PORTION_RESPONSE = None"
    by (simp add: GET_NO_PORTION_RESPONSE_def)
  from getPortion_caches_then_hits [of False
      "scriptedWorld [False, True, False, True] None None (Inr regressivePortion)"
      1 "''0xABC''" 1 "''0xdef''" sampleFetcher regressivePortion]
  have pos: "fst (getPortion False sampleFetcher 1 ''0xABC'' 1 ''0xdef''
          (scriptedWorld [False, True, False, True] None None (Inr regressivePortion)))
     = Inr regressivePortion
   \<and> cacheData
        (snd (getPortion False sampleFetcher 1 ''0xABC'' 1 ''0xdef''
                (scriptedWorld [False, True, False, True] None None (Inr regressivePortion))))
        ''PortionFetcher-1-0xabc-1-0xdef''
     = Some (regressivePortion, 600)
   \<and> fst (getPortion False sampleFetcher 1 ''0xABC'' 1 ''0xdef''
            (snd (getPortion False sampleFetcher 1 ''0xABC'' 1 ''0xdef''
                (scriptedWorld [False, True, False, True] None None (Inr regressivePortion)))))
     = Inr regressivePortion"
    by (simp add: k p scriptedWorld_def sampleFetcher_def)
  from getPortion_caches_then_hits [of False
      "scriptedWorld [False, True, False, True] None None (Inr GET_NO_PORTION_RESPONSE)"
      1 "''0xABC''" 1 "''0xdef''" sampleFetcher GET_NO_PORTION_RESPONSE]
  have neg: "cacheData
        (snd (getPortion False sampleFetcher 1 ''0xABC'' 1 ''0xdef''
                (scriptedWorld [False, True, False, True] None None
                   (Inr GET_NO_PORTION_RESPONSE))))
        ''PortionFetcher-1-0xabc-1-0xdef''
     = Some (GET_NO_PORTION_RESPONSE, 60)"
    by (simp add: k n scriptedWorld_def sampleFetcher_def)
  from pos neg show ?thesis by simp
qed

section \<open>Properties of quotes\<close>

lemma sampleQuote_amountIn:
  "amountIn sampleExternals (sampleQuote EXACT_INPUT sw adj) = Inr 100"
  by (simp add: amountIn_def sampleQuote_def fromResponseBody_def sampleRequest_def
      sampleBody_def sampleExternals_def readDecimal_def isDigit_def)

text \<open>
  C6. Parsing with a routing tag that is neither \<open>DUTCH_LIMIT\<close> nor \<open>CLASSIC\<close> throws an error
  whose message is \<open>Unknown routing type: \<close> followed by the tag, whatever the request and
  the payload are; no quote is constructed, and \<open>buildQuoteResponse\<close> passes the error on to
  its caller.
\<close>

theorem parseQuote_unknown_routing:
  assumes "routing \<noteq> DUTCH_LIMIT" and "routing \<noteq> CLASSIC"
  shows "parseQuote dutchFromResponseBody asClassic uuid ms secs req routing raw
           = Inl (Error (''Unknown routing type: '' @ routing))
       \<and> buildQuoteResponse dutchFromResponseBody asClassic uuid ms secs (routing, raw) req
           = Inl (Error (''Unknown routing type: '' @ routing))"
  using assms by (simp add: parseQuote_def buildQuoteResponse_def)

theorem parseQuote_unknown_routing_witness:
  "parseQuote (\<lambda>r j. ()) (\<lambda>j. j) ''quote-1'' ''1700000000000'' ''1700000000''
       (sampleRequest EXACT_INPUT None) ''DUTCH_V2'' (sampleBody None)
     = Inl (Error ''Unknown routing type: DUTCH_V2'')"
proof -
  have a: "''DUTCH_V2'' \<noteq> DUTCH_LIMIT" by (simp add: DUTCH_LIMIT_def)
  have b: "''DUTCH_V2'' \<noteq> CLASSIC" by (simp add: CLASSIC_def)
  from parseQuote_unknown_routing [OF a b, of "\<lambda>r j. ()" "\<lambda>j. j" "''quote-1''"
      "''1700000000000''" "''1700000000''" "sampleRequest EXACT_INPUT None" "sampleBody None"]
  show ?thesis by simp
qed

text \<open>
  C7. For a request of trade type \<open>EXACT_INPUT\<close>, \<open>amountIn\<close> is the payload's \<open>amount\<close> and
  \<open>amountOut\<close> is the payload's \<open>quote\<close>, each read by the big-number library; for
  \<open>EXACT_OUTPUT\<close> the roles are exchanged.
\<close>

theorem amountIn_amountOut_by_trade_type:
  "(type' (info (request this)) = EXACT_INPUT
      \<longrightarrow> amountIn ext this = BigNumber_from ext (amount (quoteData this))
        \<and> amountOut ext this = BigNumber_from ext (quote (quoteData this)))
   \<and> (type' (info (request this)) = EXACT_OUTPUT
      \<longrightarrow> amountIn ext this = BigNumber_from ext (quote (quoteData this))
        \<and> amountOut ext this = BigNumber_from ext (amount (quoteData this)))"
  by (simp add: amountIn_def amountOut_def)

theorem amountIn_amountOut_by_trade_type_witness:
  "amountIn sampleExternals (sampleQuote EXACT_INPUT None None) = Inr 100
   \<and> amountOut sampleExternals (sampleQuote EXACT_INPUT None None) = Inr 95
   \<and> amountIn sampleExternals (sampleQuote EXACT_OUTPUT None None) = Inr 95
   \<and> amountOut sampleExternals (sampleQuote EXACT_OUTPUT None None) = Inr 100"
proof -
  have i: "type' (info (request (sampleQuote EXACT_INPUT None None))) = EXACT_INPUT"
    by (simp add: sampleQuote_def fromResponseBody_def sampleRequest_def)
  have j: "type' (info (request (sampleQuote EXACT_OUTPUT None None))) = EXACT_OUTPUT"
    by (simp add: sampleQuote_def fromResponseBody_def sampleRequest_def)
  have a: "BigNumber_from sampleExternals (amount (quoteData (sampleQuote tt None None))) = Inr 100"
    for tt
    by (simp add: sampleQuote_def fromResponseBody_def sampleBody_def sampleExternals_def
        readDecimal_def isDigit_def)
  have q: "BigNumber_from sampleExternals (quote (quoteData (sampleQuote tt None None))) = Inr 95"
    for tt
    by (simp add: sampleQuote_def fromResponseBody_def sampleBody_def sampleExternals_def
        readDecimal_def isDigit_def)
  from amountIn_amountOut_by_trade_type [of "sampleQuote EXACT_INPUT None None" sampleExternals]
    amountIn_amountOut_by_trade_type [of "sampleQuote EXACT_OUTPUT None None" sampleExternals]
    i j a q
  show ?thesis by simp
qed

text \<open>
  C8. When the payload has no \<open>quoteGasAndPortionAdjusted\<close>, the gas-and-portion-adjusted
  accessor of the computed side is the gas-adjusted accessor of that side, that is, the
  payload's \<open>quoteGasAdjusted\<close> read by the big-number library: \<open>amountOut...\<close> for
  \<open>EXACT_INPUT\<close> and \<open>amountIn...\<close> for \<open>EXACT_OUTPUT\<close>.
\<close>

theorem gas_and_portion_adjusted_fallback:
  assumes "quoteGasAndPortionAdjusted (quoteData this) = None"
  shows "(type' (info (request this)) = EXACT_INPUT
            \<longrightarrow> amountOutGasAndPortionAdjusted ext this = amountOutGasAdjusted ext this
              \<and> amountOutGasAndPortionAdjusted ext this
                  = BigNumber_from ext (quoteGasAdjusted (quoteData this)))
       \<and> (type' (info (request this)) = EXACT_OUTPUT
            \<longrightarrow> amountInGasAndPortionAdjusted ext this = amountInGasAdjusted ext this
              \<and> amountInGasAndPortionAdjusted ext this
                  = BigNumber_from ext (quoteGasAdjusted (quoteData this)))"
  using assms
  by (simp add: amountOutGasAndPortionAdjusted_def amountOutGasAdjusted_def
      amountInGasAndPortionAdjusted_def amountInGasAdjusted_def)

theorem gas_and_portion_adjusted_fallback_witness:
  "amountOutGasAndPortionAdjusted sampleExternals (sampleQuote EXACT_INPUT None None) = Inr 93
   \<and> amountInGasAndPortionAdjusted sampleExternals (sampleQuote EXACT_OUTPUT None None) = Inr 93"
proof -
  have n: "quoteGasAndPortionAdjusted (quoteData (sampleQuote tt None None)) = None" for tt
    by (simp add: sampleQuote_def fromResponseBody_def sampleBody_def)
  have i: "type' (info (request (sampleQuote EXACT_INPUT None None))) = EXACT_INPUT"
    by (simp add: sampleQuote_def fromResponseBody_def sampleRequest_def)
  have j: "type' (info (request (sampleQuote EXACT_OUTPUT None None))) = EXACT_OUTPUT"
    by (simp add: sampleQuote_def fromResponseBody_def sampleRequest_def)
  have g: "BigNumber_from sampleExternals (quoteGasAdjusted (quoteData (sampleQuote tt None None)))
             = Inr 93" for tt
    by (simp add: sampleQuote_def fromResponseBody_def sampleBody_def sampleExternals_def
        readDecimal_def isDigit_def)
  note out = gas_and_portion_adjusted_fallback [OF n, of EXACT_INPUT sampleExternals,
      THEN conjunct1, rule_format, OF i, THEN conjunct2]
  note inp = gas_and_portion_adjusted_fallback [OF n, of EXACT_OUTPUT sampleExternals,
      THEN conjunct2, rule_format, OF j, THEN conjunct2]
  from out inp g show ?thesis by simp
qed

text \<open>
  C9. For a quote whose required \<open>amountIn\<close> the big-number library can read,
  \<open>getPermitData\<close> returns nothing exactly when the request has no requester address, or an
  allowance is recorded whose amount is at least \<open>amountIn\<close> and whose expiration is greater
  than the current time in whole seconds; in every other case it returns the permit data
  built from the request's token-in address and chain id and the recorded allowance's nonce,
  or the nonce \<open>0\<close> when no allowance is recorded. The recorded allowance is the one last
  passed to \<open>setAllowanceData\<close>, and none after construction.
\<close>

theorem getPermitData_cases:
  assumes "amountIn ext this = Inr required"
  shows "getPermitData ext nowMs this =
           Inr (if noSwapper this
                   \<or> (\<exists>a. allowanceData this = Some a \<and> PermitDetails.amount a \<ge> required
                          \<and> expiration a > nowMs div 1000)
                then None
                else Some (createPermitData ext (tokenIn (info (request this)))
                             (tokenInChainId (info (request this)))
                             (case allowanceData this of
                                None \<Rightarrow> ''0''
                              | Some a \<Rightarrow> numberToString (nonce a))))
       \<and> allowanceData (setAllowanceData data this) = data
       \<and> request (setAllowanceData data this) = request this
       \<and> quoteData (setAllowanceData data this) = quoteData this
       \<and> allowanceData (fromResponseBody uuid ms secs req body) = None"
  using assms
  by (simp add: getPermitData_def setAllowanceData_def fromResponseBody_def
      split: option.splits)

theorem getPermitData_cases_witness:
  "getPermitData sampleExternals 1700000000999
       (setAllowanceData (Some (sampleAllowance 100 1700000001))
          (sampleQuote EXACT_INPUT (Some ''0xme'') None)) = Inr None
   \<and> getPermitData sampleExternals 1700000000999
       (setAllowanceData (Some (sampleAllowance 100 1700000000))
          (sampleQuote EXACT_INPUT (Some ''0xme'') None))
       = Inr (Some (''0xa0b86991c6218b36c1d19d4a2e9eb0ce3606eb48'', 1, ''7''))
   \<and> getPermitData sampleExternals 1700000000999
       (sampleQuote EXACT_INPUT (Some ''0xme'') None)
       = Inr (Some (''0xa0b86991c6218b36c1d19d4a2e9eb0ce3606eb48'', 1, ''0''))
   \<and> getPermitData sampleExternals 1700000000999
       (sampleQuote EXACT_INPUT None None) = Inr None"
proof -
  have r: "amountIn sampleExternals (setAllowanceData d (sampleQuote EXACT_INPUT sw None))
             = Inr 100" for d sw
    by (simp add: amountIn_def setAllowanceData_def sampleQuote_def fromResponseBody_def
        sampleRequest_def sampleBody_def sampleExternals_def readDecimal_def isDigit_def)
  have r0: "amountIn sampleExternals (sampleQuote EXACT_INPUT sw None) = Inr 100" for sw
    by (rule sampleQuote_amountIn)
  have seven: "numberToString 7 = ''7''" by code_simp
  have a: "getPermitData sampleExternals 1700000000999
       (setAllowanceData (Some (sampleAllowance 100 1700000001))
          (sampleQuote EXACT_INPUT (Some ''0xme'') None)) = Inr None"
    using getPermitData_cases [OF r [of "Some (sampleAllowance 100 1700000001)" "Some ''0xme''"],
        where nowMs = 1700000000999]
    by (simp add: setAllowanceData_def sampleAllowance_def sampleQuote_def fromResponseBody_def
        sampleRequest_def noSwapper_def)
  have b: "getPermitData sampleExternals 1700000000999
       (setAllowanceData (Some (sampleAllowance 100 1700000000))
          (sampleQuote EXACT_INPUT (Some ''0xme'') None))
       = Inr (Some (''0xa0b86991c6218b36c1d19d4a2e9eb0ce3606eb48'', 1, ''7''))"
    using getPermitData_cases [OF r [of "Some (sampleAllowance 100 1700000000)" "Some ''0xme''"],
        where nowMs = 1700000000999]
    by (simp add: setAllowanceData_def sampleAllowance_def sampleQuote_def fromResponseBody_def
        sampleRequest_def noSwapper_def sampleExternals_def seven)
  have c: "getPermitData sampleExternals 1700000000999
       (sampleQuote EXACT_INPUT (Some ''0xme'') None)
       = Inr (Some (''0xa0b86991c6218b36c1d19d4a2e9eb0ce3606eb48'', 1, ''0''))"
    using getPermitData_cases [OF r0 [of "Some ''0xme''"], where nowMs = 1700000000999]
    by (simp add: sampleQuote_def fromResponseBody_def sampleRequest_def noSwapper_def
        sampleExternals_def)
  have d: "getPermitData sampleExternals 1700000000999
       (sampleQuote EXACT_INPUT None None) = Inr None"
    using getPermitData_cases [OF r0 [of None], where nowMs = 1700000000999]
    by (simp add: sampleQuote_def fromResponseBody_def sampleRequest_def noSwapper_def)
  from a b c d show ?thesis by simp
qed

end
